theory Spec2Isabelle
  imports Main "HOL-Library.Word"
begin

section \<open>The KETI handler of \<open>ha_keti.cc\<close>: data\<close>

text \<open>
  Bytes are \<open>unsigned char\<close>. A pointer to bytes (\<open>uchar *buf\<close>, \<open>char recvbuf[20]\<close>)
  is modelled by the memory found at and after it: a function from the offset to the byte
  stored there. Memory that the code does not write keeps its previous contents; this is how
  the uninitialised \<open>recvbuf\<close> of \<open>write_row\<close> and the bytes of the host's buffer that a
  \<open>recv\<close> did not fill show up in the model.
\<close>

type_synonym byte = "8 word"
type_synonym memory = "nat \<Rightarrow> byte"

text \<open>The bytes of a C string literal, without its terminating NUL.\<close>

definition cbytes :: "string \<Rightarrow> byte list" where
  "cbytes s = map of_char s"

text \<open>Memory that holds the bytes \<open>bs\<close> from offset 0 on, and \<open>m\<close> after them.\<close>

definition store :: "memory \<Rightarrow> byte list \<Rightarrow> memory" where
  "store m bs = (\<lambda>i. if i < length bs then bs ! i else m i)"

text \<open>The \<open>n\<close> bytes found at a pointer.\<close>

definition load :: "memory \<Rightarrow> nat \<Rightarrow> byte list" where
  "load m n = map m [0..<n]"

text \<open>
  The network system calls that the handler issues, in the order of the calls. \<open>Close\<close> is
  what a call of \<open>close(fd)\<close> would record.
\<close>

datatype event =
    Socket int
  | Connect int string nat
  | Send int "byte list"
  | Recv int nat
  | Close int

text \<open>
  The state that the handler's methods read and write: the member \<open>client_sockfd\<close>, the
  record length \<open>table->s->reclength\<close> of the open table, the descriptors that are open in
  the process, the system calls issued so far, and the two session variables
  \<open>last_create_thdvar\<close> (a string, \<open>None\<close> for its initial NULL) and \<open>create_count_thdvar\<close>
  (an unsigned 32-bit integer). Debug tracing and the \<open>printf\<close>/\<open>perror\<close> diagnostics are not modelled.
\<close>

record state =
  client_sockfd :: int
  reclength :: nat
  fds :: "int list"
  trace :: "event list"
  last_create_thdvar :: "string option"
  create_count_thdvar :: "32 word"

text \<open>
  What the operating system and the remote peer answer during one method call: the results
  of \<open>socket()\<close> and \<open>connect()\<close>, and for \<open>recv()\<close> either a failure (\<open>None\<close>, the
  call returns \<open>-1\<close>) or the bytes that are there to be read (\<open>Some bs\<close>; the empty list is
  a closed stream, for which \<open>recv\<close> returns 0).
\<close>

record answers =
  socket_ret :: int
  connect_ret :: int
  reply :: "byte list option"

section \<open>System calls and \<open>strcmp\<close>\<close>

definition sys_socket :: "int \<Rightarrow> state \<Rightarrow> int \<times> state" where
  "sys_socket r s =
     (r, s\<lparr>fds := (if r = -1 then fds s else r # fds s), trace := trace s @ [Socket r]\<rparr>)"

definition sys_connect :: "int \<Rightarrow> int \<Rightarrow> string \<Rightarrow> nat \<Rightarrow> state \<Rightarrow> int \<times> state" where
  "sys_connect r fd addr port s = (r, s\<lparr>trace := trace s @ [Connect fd addr port]\<rparr>)"

text \<open>The result of \<open>send\<close> is stored in \<open>writelen\<close> and never read, so it is not modelled.\<close>

definition sys_send :: "int \<Rightarrow> byte list \<Rightarrow> state \<Rightarrow> state" where
  "sys_send fd bs s = s\<lparr>trace := trace s @ [Send fd bs]\<rparr>"

text \<open>
  \<open>recv(fd, buf, n, 0)\<close>: at most \<open>n\<close> of the bytes that are there are copied to the start of
  \<open>buf\<close>, and their number is returned; the rest of \<open>buf\<close> is left as it was.
\<close>

definition sys_recv ::
  "byte list option \<Rightarrow> int \<Rightarrow> memory \<Rightarrow> nat \<Rightarrow> state \<Rightarrow> int \<times> memory \<times> state" where
  "sys_recv r fd buf n s =
     (case r of
        None \<Rightarrow> (-1, buf, s\<lparr>trace := trace s @ [Recv fd n]\<rparr>)
      | Some bs \<Rightarrow> (int (length (take n bs)), store buf (take n bs),
                    s\<lparr>trace := trace s @ [Recv fd n]\<rparr>))"

text \<open>
  \<open>strcmp(m + i, lit)\<close> for a string literal \<open>lit\<close> (given without its NUL): bytes are
  compared as \<open>unsigned char\<close> up to the first difference or the common NUL. Only whether
  the result is 0 is used by the code.
\<close>

fun strcmp_at :: "memory \<Rightarrow> nat \<Rightarrow> byte list \<Rightarrow> int" where
  "strcmp_at m i [] = uint (m i)"
| "strcmp_at m i (c # cs) =
     (if m i \<noteq> c then uint (m i) - uint c
      else if c = 0 then 0
      else strcmp_at m (Suc i) cs)"

definition strcmp :: "memory \<Rightarrow> byte list \<Rightarrow> int" where
  "strcmp m lit = strcmp_at m 0 lit"

section \<open>Inserting a row\<close>

text \<open>
  \<open>ha_keti::write_row\<close>. The descriptor is the local variable \<open>client_sockfd\<close> of the
  function, which hides the member of the same name. \<open>stack\<close> is what the 20 bytes of
  \<open>recvbuf\<close> hold when the function is entered.
\<close>

definition write_row :: "state \<Rightarrow> memory \<Rightarrow> answers \<Rightarrow> memory \<Rightarrow> int \<times> state" where
  "write_row s buf a stack =
     (let (sockfd, s1) = sys_socket (socket_ret a) s in
      if sockfd = -1 then (-1, s1)
      else
        let (ret, s2) = sys_connect (connect_ret a) sockfd ''10.0.5.101'' 8188 s1 in
        if ret = -1 then (-1, s2)
        else
          let s3 = sys_send sockfd (cbytes ''w'') s2;
              s4 = sys_send sockfd (load buf (reclength s3)) s3;
              (readlen, recvbuf, s5) = sys_recv (reply a) sockfd stack 20 s4
          in if readlen < 1 then (-1, s5)
             else if strcmp recvbuf (cbytes ''success'') \<noteq> 0 then (-1, s5)
             else (0, s5))"

section \<open>Scanning the table\<close>

text \<open>\<open>ha_keti::rnd_init\<close> stores the new descriptor in the member \<open>client_sockfd\<close>.\<close>

definition rnd_init :: "state \<Rightarrow> answers \<Rightarrow> int \<times> state" where
  "rnd_init s a =
     (let (sockfd, s1) = sys_socket (socket_ret a) s;
          s1' = s1\<lparr>client_sockfd := sockfd\<rparr>
      in if client_sockfd s1' = -1 then (-1, s1')
         else
           let (ret, s2) = sys_connect (connect_ret a) (client_sockfd s1') ''10.0.5.101'' 8188 s1'
           in if ret = -1 then (-1, s2) else (0, s2))"

definition rnd_end :: "state \<Rightarrow> int \<times> state" where
  "rnd_end s = (0, s)"

text \<open>
  \<open>ha_keti::rnd_next\<close>. \<open>HA_ERR_END_OF_FILE\<close> is a constant of the host's \<open>my_base.h\<close>,
  which is not part of this repository: it is a parameter. The result is the return value,
  the host's buffer after the call, and the state.
\<close>

definition rnd_next :: "int \<Rightarrow> state \<Rightarrow> memory \<Rightarrow> byte list option \<Rightarrow> int \<times> memory \<times> state" where
  "rnd_next HA_ERR_END_OF_FILE s buf r =
     (let s1 = sys_send (client_sockfd s) (cbytes ''r'') s;
          (readlen, buf', s2) = sys_recv r (client_sockfd s1) buf (reclength s1) s1
      in if readlen < 1 then (-1, buf', s2)
         else if strcmp buf' (cbytes ''success'') \<noteq> 0 then (-1, buf', s2)
         else (HA_ERR_END_OF_FILE, buf', s2))"

section \<open>The hooks that do not reach the network\<close>

text \<open>
  \<open>HA_ERR_WRONG_COMMAND\<close> is a constant of the host's \<open>my_base.h\<close> as well, and a
  parameter here. The arguments that the methods do not name are kept, with the types of the
  declarations where they are bytes and type variables for the host's own types.
\<close>

definition update_row :: "int \<Rightarrow> state \<Rightarrow> memory \<Rightarrow> memory \<Rightarrow> int \<times> state" where
  "update_row HA_ERR_WRONG_COMMAND s old_data new_data = (HA_ERR_WRONG_COMMAND, s)"

definition delete_row :: "int \<Rightarrow> state \<Rightarrow> memory \<Rightarrow> int \<times> state" where
  "delete_row HA_ERR_WRONG_COMMAND s buf = (HA_ERR_WRONG_COMMAND, s)"

definition index_read_map :: "int \<Rightarrow> state \<Rightarrow> memory \<Rightarrow> memory \<Rightarrow> 'm \<Rightarrow> 'f \<Rightarrow> int \<times> state" where
  "index_read_map HA_ERR_WRONG_COMMAND s buf key keypart_map find_flag =
     (let rc = HA_ERR_WRONG_COMMAND in (rc, s))"

definition index_next :: "int \<Rightarrow> state \<Rightarrow> memory \<Rightarrow> int \<times> state" where
  "index_next HA_ERR_WRONG_COMMAND s buf = (let rc = HA_ERR_WRONG_COMMAND in (rc, s))"

definition index_prev :: "int \<Rightarrow> state \<Rightarrow> memory \<Rightarrow> int \<times> state" where
  "index_prev HA_ERR_WRONG_COMMAND s buf = (let rc = HA_ERR_WRONG_COMMAND in (rc, s))"

definition index_first :: "int \<Rightarrow> state \<Rightarrow> memory \<Rightarrow> int \<times> state" where
  "index_first HA_ERR_WRONG_COMMAND s buf = (let rc = HA_ERR_WRONG_COMMAND in (rc, s))"

definition index_last :: "int \<Rightarrow> state \<Rightarrow> memory \<Rightarrow> int \<times> state" where
  "index_last HA_ERR_WRONG_COMMAND s buf = (let rc = HA_ERR_WRONG_COMMAND in (rc, s))"

definition rnd_pos :: "int \<Rightarrow> state \<Rightarrow> memory \<Rightarrow> memory \<Rightarrow> int \<times> state" where
  "rnd_pos HA_ERR_WRONG_COMMAND s buf pos = (let rc = HA_ERR_WRONG_COMMAND in (rc, s))"

definition delete_all_rows :: "int \<Rightarrow> state \<Rightarrow> int \<times> state" where
  "delete_all_rows HA_ERR_WRONG_COMMAND s = (HA_ERR_WRONG_COMMAND, s)"

definition rename_table :: "int \<Rightarrow> state \<Rightarrow> string \<Rightarrow> string \<Rightarrow> 'd \<Rightarrow> 'd \<Rightarrow> int \<times> state" where
  "rename_table HA_ERR_WRONG_COMMAND s from_name to_name from_table_def to_table_def =
     (HA_ERR_WRONG_COMMAND, s)"

definition delete_table :: "state \<Rightarrow> string \<Rightarrow> 'd \<Rightarrow> int \<times> state" where
  "delete_table s name table_def = (0, s)"

text \<open>
  \<open>snprintf(buf, size, fmt, ...)\<close> keeps at most \<open>size - 1\<close> characters of the text.
\<close>

definition snprintf :: "nat \<Rightarrow> string \<Rightarrow> string" where
  "snprintf n txt = take (n - 1) txt"

text \<open>
  \<open>ha_keti::create\<close>. \<open>SHOW_VAR_FUNC_BUFF_SIZE\<close> is a constant of the host and a
  parameter here. \<open>THDVAR_SET\<close> stores the value in the session variable; the count is a
  \<open>uint\<close>, so the addition wraps at \<open>2^32\<close>.
\<close>

definition create :: "nat \<Rightarrow> state \<Rightarrow> string \<Rightarrow> 't \<Rightarrow> 'c \<Rightarrow> 'd \<Rightarrow> int \<times> state" where
  "create SHOW_VAR_FUNC_BUFF_SIZE s name form create_info table_def =
     (let buf = snprintf SHOW_VAR_FUNC_BUFF_SIZE
                  (''Last creation '' @ [CHR 0x27] @ name @ [CHR 0x27]);
          s1 = s\<lparr>last_create_thdvar := Some buf\<rparr>;
          count = create_count_thdvar s1 + 1;
          s2 = s1\<lparr>create_count_thdvar := count\<rparr>
      in (0, s2))"

text \<open>\<open>ha_keti::records_in_range\<close>; \<open>ha_rows\<close> is an unsigned 64-bit integer.\<close>

definition records_in_range :: "state \<Rightarrow> 32 word \<Rightarrow> 'k \<Rightarrow> 'k \<Rightarrow> 64 word" where
  "records_in_range s inx min_key max_key = 10"

section \<open>System tables\<close>

text \<open>
  A \<open>const char *\<close> is NULL (\<open>None\<close>) or an address with the string found there. The
  entries of \<open>ha_keti_system_tables\<close> are pairs of such pointers, and the array ends with
  the pair of NULLs.
\<close>

type_synonym c_str = "(nat \<times> string) option"

definition ha_keti_system_tables :: "(c_str \<times> c_str) list" where
  "ha_keti_system_tables = [(None, None)]"

text \<open>
  The loop of \<open>keti_is_supported_system_table\<close> over an array: \<open>systab->db == db\<close>
  compares the pointers, \<open>strcmp\<close> the strings. The result is \<open>None\<close> where the C code
  has no defined result: \<open>strcmp\<close> on a NULL pointer, or an array without its last entry.
\<close>

fun systab_loop :: "(c_str \<times> c_str) list \<Rightarrow> c_str \<Rightarrow> c_str \<Rightarrow> bool option" where
  "systab_loop [] db table_name = None"
| "systab_loop ((sdb, stab) # rest) db table_name =
     (case sdb of
        None \<Rightarrow> Some False
      | Some d \<Rightarrow>
          if map_option fst sdb = map_option fst db then
            (case (stab, table_name) of
               (Some t, Some n) \<Rightarrow>
                 if snd t = snd n then Some True else systab_loop rest db table_name
             | _ \<Rightarrow> None)
          else systab_loop rest db table_name)"

definition keti_is_supported_system_table :: "c_str \<Rightarrow> c_str \<Rightarrow> bool \<Rightarrow> bool option" where
  "keti_is_supported_system_table db table_name is_sql_layer_system_table =
     (if is_sql_layer_system_table then Some False
      else systab_loop ha_keti_system_tables db table_name)"

section \<open>Concrete inputs\<close>

text \<open>
  Inputs at which the methods are evaluated below: memory filled with zero bytes, a handler
  on a table with records of 8 bytes and nothing open, the answers of a reachable peer
  (\<open>socket()\<close> returns descriptor 3, \<open>connect()\<close> returns 0), and that handler after
  \<open>rnd_init\<close> has opened its scan.
\<close>

definition zeros :: memory where
  "zeros = (\<lambda>_. 0)"

definition table8 :: state where
  "table8 = \<lparr>client_sockfd = 0, reclength = 8, fds = [], trace = [],
              last_create_thdvar = None, create_count_thdvar = 0\<rparr>"

definition ok :: "byte list option \<Rightarrow> answers" where
  "ok r = \<lparr>socket_ret = 3, connect_ret = 0, reply = r\<rparr>"

definition scan8 :: state where
  "scan8 = snd (rnd_init table8 (ok None))"

section \<open>What the methods compute\<close>

lemma strcmp_at_zero_iff:
  "0 \<notin> set lit \<Longrightarrow>
   strcmp_at m i lit = 0 \<longleftrightarrow> map m [i..<i + length lit] = lit \<and> m (i + length lit) = 0"
proof (induction lit arbitrary: i)
  case Nil
  show ?case by (simp add: uint_0_iff)
next
  case (Cons c cs)
  then have c0: "c \<noteq> 0" and cs0: "0 \<notin> set cs" by auto
  have up: "[i..<i + length (c # cs)] = i # [Suc i..<Suc i + length cs]"
    by (subst upt_rec) simp
  show ?case
  proof (cases "m i = c")
    case True
    then show ?thesis
      using Cons.IH [OF cs0, of "Suc i"] c0 by (simp only: up) simp
  next
    case False
    then have "uint (m i) - uint c \<noteq> 0" by (simp add: word_uint_eq_iff)
    with False show ?thesis by (simp only: up) simp
  qed
qed

lemma token_no_nul: "0 \<notin> set (cbytes ''success'')"
  by (simp add: cbytes_def)

text \<open>
  The comparison with \<open>"success"\<close> succeeds exactly when the eight bytes at the pointer are
  the seven characters and a NUL.
\<close>

lemma strcmp_success_iff:
  "strcmp m (cbytes ''success'') = 0 \<longleftrightarrow> load m 8 = cbytes ''success'' @ [0]"
proof -
  have len: "length (cbytes ''success'') = 7" by (simp add: cbytes_def)
  have "load m 8 = load m 7 @ [m 7]" by (simp add: load_def eval_nat_numeral)
  then show ?thesis
    using strcmp_at_zero_iff [OF token_no_nul, of m 0]
    by (simp add: strcmp_def len load_def)
qed

lemma load_store_prefix: "k \<le> length bs \<Longrightarrow> load (store m bs) k = take k bs"
  by (auto simp: load_def store_def list_eq_iff_nth_eq)

lemma load8: "load m 8 = [m 0, m 1, m 2, m 3, m 4, m 5, m 6, m 7]"
  by (simp add: load_def eval_nat_numeral)

text \<open>The return value of \<open>write_row\<close>, for all inputs.\<close>

lemma write_row_ret:
  "fst (write_row s buf a stack) =
     (if socket_ret a \<noteq> -1 \<and> connect_ret a \<noteq> -1 \<and>
         (\<exists>bs. reply a = Some bs \<and> bs \<noteq> [] \<and>
               load (store stack (take 20 bs)) 8 = cbytes ''success'' @ [0])
      then 0 else -1)"
  by (auto simp: write_row_def sys_socket_def sys_connect_def sys_send_def sys_recv_def
      strcmp_success_iff Let_def min_def split: option.splits if_splits)

text \<open>
  \<open>write_row\<close> closes nothing: the descriptor that \<open>socket()\<close> returned is still open when
  the function returns, on every path, and no \<open>close\<close> is issued.
\<close>

lemma write_row_fds:
  "fds (snd (write_row s buf a stack)) =
     (if socket_ret a = -1 then fds s else socket_ret a # fds s)"
  by (auto simp: write_row_def sys_socket_def sys_connect_def sys_send_def sys_recv_def
      Let_def split: option.splits)

lemma write_row_no_close:
  "Close fd \<in> set (trace (snd (write_row s buf a stack))) \<longleftrightarrow> Close fd \<in> set (trace s)"
  by (auto simp: write_row_def sys_socket_def sys_connect_def sys_send_def sys_recv_def
      Let_def split: option.splits)

text \<open>The return value of \<open>rnd_next\<close>, the host's buffer and the state after it, for all inputs.\<close>

lemma rnd_next_ret:
  "fst (rnd_next E s buf r) =
     (if (\<exists>bs. r = Some bs \<and> take (reclength s) bs \<noteq> [] \<and>
               load (store buf (take (reclength s) bs)) 8 = cbytes ''success'' @ [0])
      then E else -1)"
  by (auto simp: rnd_next_def sys_send_def sys_recv_def
      strcmp_success_iff Let_def min_def split: option.splits if_splits)

lemma rnd_next_buf:
  "fst (snd (rnd_next E s buf r)) =
     (case r of None \<Rightarrow> buf | Some bs \<Rightarrow> store buf (take (reclength s) bs))"
  by (auto simp: rnd_next_def sys_send_def sys_recv_def Let_def split: option.splits)

lemma rnd_next_state:
  "snd (snd (rnd_next E s buf r)) =
     s\<lparr>trace := trace s @ [Send (client_sockfd s) (cbytes ''r''),
                           Recv (client_sockfd s) (reclength s)]\<rparr>"
  by (auto simp: rnd_next_def sys_send_def sys_recv_def Let_def split: option.splits)

lemma rnd_init_ok:
  "socket_ret a \<noteq> -1 \<Longrightarrow> connect_ret a \<noteq> -1 \<Longrightarrow>
   rnd_init s a = (0, s\<lparr>client_sockfd := socket_ret a, fds := socket_ret a # fds s,
      trace := trace s @ [Socket (socket_ret a), Connect (socket_ret a) ''10.0.5.101'' 8188]\<rparr>)"
  by (simp add: rnd_init_def sys_socket_def sys_connect_def)

lemma scan8_eq:
  "scan8 = \<lparr>client_sockfd = 3, reclength = 8, fds = [3],
             trace = [Socket 3, Connect 3 ''10.0.5.101'' 8188],
             last_create_thdvar = None, create_count_thdvar = 0\<rparr>"
  by (simp add: scan8_def rnd_init_def sys_socket_def sys_connect_def ok_def table8_def)

section \<open>Properties\<close>

subsection \<open>C1: a scan step on a Data Reply\<close>

text \<open>
  C1 says that a scan step which receives a Data Reply copies the \<open>record_length\<close> row
  bytes into the host's buffer and returns the host's code for "row available", which is 0.
  \<open>rnd_next\<close> has no path that returns 0. On an open scan over records of 8 bytes, the
  reply \<open>[1, 2, 3, 4, 5, 6, 7, 8]\<close> is copied into the buffer, and the call returns the
  failure code \<open>-1\<close>.
\<close>

theorem rnd_next_data_reply_returns_failure:
  "fst (rnd_next 137 scan8 zeros (Some [1, 2, 3, 4, 5, 6, 7, 8])) = -1 \<and>
   load (fst (snd (rnd_next 137 scan8 zeros (Some [1, 2, 3, 4, 5, 6, 7, 8])))) 8
     = [1, 2, 3, 4, 5, 6, 7, 8]"
  by (simp add: rnd_next_ret rnd_next_buf load8 store_def cbytes_def scan8_eq zeros_def)

subsection \<open>C2: control and data replies\<close>

text \<open>
  C2, as amended. Whether a reply is control or data is decided by its content alone: the
  code has no discriminator on the wire, and both paths compare the received bytes, as a C
  string, with the literal \<open>"success"\<close>. For every reply of at least 8 bytes, \<open>rnd_next\<close>
  on a table whose records have at least 8 bytes returns \<open>HA_ERR_END_OF_FILE\<close> (a code
  other than \<open>-1\<close>) exactly when the first 8 bytes of the reply are the characters of
  \<open>success\<close> and a NUL, and \<open>write_row\<close>, once \<open>socket()\<close> and \<open>connect()\<close> have
  succeeded, returns 0 exactly when they are. So a row that begins with these 8 bytes is
  taken for the status token, whatever follows them.
\<close>

theorem reply_kind_decided_by_content:
  assumes "8 \<le> length bs"
  shows "(8 \<le> reclength s \<and> E \<noteq> -1 \<longrightarrow>
           (fst (rnd_next E s buf (Some bs)) = E
              \<longleftrightarrow> take 8 bs = cbytes ''success'' @ [0])) \<and>
         (socket_ret a \<noteq> -1 \<and> connect_ret a \<noteq> -1 \<and> reply a = Some bs \<longrightarrow>
           (fst (write_row s buf a stack) = 0
              \<longleftrightarrow> take 8 bs = cbytes ''success'' @ [0]))"
proof -
  have w: "load (store stack (take 20 bs)) 8 = take 8 bs"
    using assms by (simp add: load_store_prefix min_def)
  have r: "load (store buf (take (reclength s) bs)) 8 = take 8 bs" if "8 \<le> reclength s"
    using assms that by (simp add: load_store_prefix min_def)
  have ne: "bs \<noteq> []" using assms by auto
  show ?thesis
    using w r ne assms by (auto simp: write_row_ret rnd_next_ret)
qed

text \<open>The theorem at a reply of 10 bytes that begins with the token.\<close>

theorem reply_kind_decided_by_content_witness:
  "8 \<le> length (cbytes ''success'' @ [0, 1, 2]) \<and> 8 \<le> reclength scan8 \<and>
   (137 :: int) \<noteq> -1 \<and>
   socket_ret (ok (Some (cbytes ''success'' @ [0, 1, 2]))) \<noteq> -1 \<and>
   connect_ret (ok (Some (cbytes ''success'' @ [0, 1, 2]))) \<noteq> -1 \<and>
   fst (rnd_next 137 scan8 zeros (Some (cbytes ''success'' @ [0, 1, 2]))) = 137 \<and>
   fst (write_row scan8 zeros (ok (Some (cbytes ''success'' @ [0, 1, 2]))) zeros) = 0"
proof -
  have h: "8 \<le> length (cbytes ''success'' @ [0, 1, 2])" by (simp add: cbytes_def)
  show ?thesis
    using reply_kind_decided_by_content [OF h, where s = scan8 and E = 137 and buf = zeros
        and a = "ok (Some (cbytes ''success'' @ [0, 1, 2]))" and stack = zeros]
    by (simp add: cbytes_def ok_def scan8_eq)
qed

text \<open>
  C2 as it is stated fails: the row of 8 bytes \<open>success\<close>, NUL is a row of the record
  length, and the scan step that receives it returns the end-of-data code 137 of the host,
  not the code 0 for a row.
\<close>

theorem row_equal_to_token_counterexample:
  "length (cbytes ''success'' @ [0]) = reclength scan8 \<and>
   fst (rnd_next 137 scan8 zeros (Some (cbytes ''success'' @ [0]))) = 137 \<and>
   fst (rnd_next 137 scan8 zeros (Some (cbytes ''success'' @ [0]))) \<noteq> 0"
  by (simp add: rnd_next_ret load8 store_def cbytes_def scan8_eq zeros_def)

subsection \<open>C3: the acknowledgement of a write\<close>

text \<open>
  C3 says that \<open>write_row\<close> returns success if and only if the reply is the token
  \<open>success\<close>, byte for byte. The code compares \<open>recvbuf\<close> with \<open>strcmp\<close>: when the reply
  is the 7 bytes of the token, the byte that ends the comparison is one that \<open>recv\<close> did
  not write, and with \<open>0x41\<close> there the call returns \<open>-1\<close>; and a reply that goes on after
  the token and a NUL (here with \<open>0x58\<close>) returns 0.
\<close>

theorem write_row_token_mismatch:
  "fst (write_row table8 (store zeros [1, 2, 3, 4, 5, 6, 7, 8])
          (ok (Some (cbytes ''success''))) (\<lambda>_. 0x41)) = -1 \<and>
   fst (write_row table8 (store zeros [1, 2, 3, 4, 5, 6, 7, 8])
          (ok (Some (cbytes ''success'' @ [0, 0x58]))) zeros) = 0"
  by (simp add: write_row_ret load8 store_def cbytes_def ok_def zeros_def)

subsection \<open>C4: the socket of a write\<close>

text \<open>
  C4 says that \<open>write_row\<close> closes the socket it opened on every exit path. The call of
  \<open>close\<close> is commented out in the code and no path has one: after a write that the peer
  acknowledges, the function returns 0, descriptor 3 is still open, and the system calls
  issued are \<open>socket\<close>, \<open>connect\<close>, two \<open>send\<close> and one \<open>recv\<close>. (For all inputs:
  \<open>write_row_fds\<close> and \<open>write_row_no_close\<close> above.)
\<close>

theorem write_row_leaves_socket_open:
  "write_row table8 (store zeros [1, 2, 3, 4, 5, 6, 7, 8])
          (ok (Some (cbytes ''success'' @ [0]))) zeros
     = (0, table8\<lparr>fds := [3],
                    trace := [Socket 3, Connect 3 ''10.0.5.101'' 8188, Send 3 (cbytes ''w''),
                              Send 3 [1, 2, 3, 4, 5, 6, 7, 8], Recv 3 20]\<rparr>)"
  by (simp add: write_row_def sys_socket_def sys_connect_def sys_send_def sys_recv_def
      strcmp_def cbytes_def store_def zeros_def table8_def ok_def load8 [unfolded load_def]
      load_def)

subsection \<open>C5: short reads\<close>

text \<open>
  C5 says that a read of fewer bytes than the frame requires is detected and reported as a
  transport error, and never taken for a complete reply. The code tests \<open>readlen < 1\<close>
  only, and then compares the buffer with \<open>strcmp\<close>, which reads on into bytes that
  \<open>recv\<close> did not write. On an open scan over records of 8 bytes, with the token of an
  earlier scan's end still in the host's buffer, a \<open>recv\<close> that delivers the single byte
  \<open>s\<close> makes \<open>rnd_next\<close> return the end-of-data code 137, not the failure code
  \<open>-1\<close>. In \<open>write_row\<close>, a \<open>recv\<close> that delivers the 4 bytes \<open>succ\<close> into a
  \<open>recvbuf\<close> whose old contents go on with \<open>ess\<close> and a NUL returns 0, the success
  code.
\<close>

theorem short_read_taken_for_token:
  "length [0x73 :: byte] < reclength scan8 \<and>
   fst (rnd_next 137 scan8 (store zeros (cbytes ''success'' @ [0])) (Some [0x73])) = 137 \<and>
   fst (rnd_next 137 scan8 (store zeros (cbytes ''success'' @ [0])) (Some [0x73])) \<noteq> -1 \<and>
   fst (write_row table8 (store zeros [1, 2, 3, 4, 5, 6, 7, 8])
          (ok (Some (cbytes ''succ''))) (store zeros (cbytes ''....ess'' @ [0]))) = 0"
  by (simp add: rnd_next_ret write_row_ret load8 store_def cbytes_def scan8_eq ok_def zeros_def)

subsection \<open>C6: a scan without rows\<close>

text \<open>
  C6, as amended. The token that ends a scan is \<open>success\<close> followed by a NUL, not
  \<open>eof\<close>. When \<open>rnd_init\<close> has succeeded on a table whose records have at least 8 bytes,
  and the reply to the very first \<open>rnd_next\<close> begins with these 8 bytes, \<open>rnd_next\<close>
  returns \<open>HA_ERR_END_OF_FILE\<close>, the host's code for the end of the data. The handler keeps
  no scan state: after the step, \<open>client_sockfd\<close> and the open descriptor are as
  \<open>rnd_init\<close> left them, and the step has added its \<open>send\<close> and \<open>recv\<close> to the calls
  issued and nothing else.
\<close>

theorem empty_scan_ends_on_success_token:
  assumes "socket_ret a \<noteq> -1" and "connect_ret a \<noteq> -1" and "8 \<le> reclength s"
    and "take 8 bs = cbytes ''success'' @ [0]"
  shows "fst (rnd_init s a) = 0 \<and>
         fst (rnd_next E (snd (rnd_init s a)) buf (Some bs)) = E \<and>
         snd (snd (rnd_next E (snd (rnd_init s a)) buf (Some bs)))
           = s\<lparr>client_sockfd := socket_ret a, fds := socket_ret a # fds s,
               trace := trace s @ [Socket (socket_ret a),
                                   Connect (socket_ret a) ''10.0.5.101'' 8188,
                                   Send (socket_ret a) (cbytes ''r''),
                                   Recv (socket_ret a) (reclength s)]\<rparr>"
proof -
  have len: "8 \<le> length bs"
  proof (rule ccontr)
    assume "\<not> 8 \<le> length bs"
    then have "length (take 8 bs) < 8" by simp
    then show False using assms(4) by (simp add: cbytes_def)
  qed
  have ne: "take (reclength s) bs \<noteq> []" using len assms(3) by auto
  have ld: "load (store buf (take (reclength s) bs)) 8 = take 8 bs"
    using len assms(3) by (simp add: load_store_prefix min_def)
  show ?thesis
    using ne ld assms(4)
    by (simp add: rnd_init_ok [OF assms(1,2)] rnd_next_ret rnd_next_state)
qed

text \<open>The theorem at the reply \<open>success\<close>, NUL on a table with records of 8 bytes.\<close>

theorem empty_scan_ends_on_success_token_witness:
  "socket_ret (ok None) \<noteq> -1 \<and> connect_ret (ok None) \<noteq> -1 \<and> 8 \<le> reclength table8 \<and>
   take 8 (cbytes ''success'' @ [0]) = cbytes ''success'' @ [0] \<and>
   fst (rnd_init table8 (ok None)) = 0 \<and>
   fst (rnd_next 137 (snd (rnd_init table8 (ok None))) zeros (Some (cbytes ''success'' @ [0])))
     = 137"
proof -
  have h1: "socket_ret (ok None) \<noteq> -1" and h2: "connect_ret (ok None) \<noteq> -1"
    and h3: "8 \<le> reclength table8"
    and h4: "take 8 (cbytes ''success'' @ [0]) = cbytes ''success'' @ [0]"
    by (simp_all add: ok_def table8_def cbytes_def)
  show ?thesis
    using h1 h2 h3 h4 empty_scan_ends_on_success_token [OF h1 h2 h3 h4, of 137 zeros]
    by simp
qed

text \<open>
  C6 as it is stated fails: after a successful \<open>rnd_init\<close>, the first \<open>rnd_next\<close> that
  receives the token \<open>eof\<close>, with or without a NUL after it, returns the failure code
  \<open>-1\<close>.
\<close>

theorem eof_token_counterexample:
  "fst (rnd_init table8 (ok None)) = 0 \<and>
   fst (rnd_next 137 (snd (rnd_init table8 (ok None))) zeros (Some (cbytes ''eof''))) = -1 \<and>
   fst (rnd_next 137 (snd (rnd_init table8 (ok None))) zeros (Some (cbytes ''eof'' @ [0]))) = -1"
  by (simp add: rnd_next_ret load8 store_def cbytes_def zeros_def scan8_eq [unfolded scan8_def])
     (simp add: rnd_init_def sys_socket_def sys_connect_def ok_def)

subsection \<open>C7: the hooks that are not supported\<close>

text \<open>
  C7, as amended. For every call, \<open>rnd_pos\<close>, the index operations \<open>index_read_map\<close>,
  \<open>index_next\<close>, \<open>index_prev\<close>, \<open>index_first\<close> and \<open>index_last\<close>, \<open>update_row\<close>,
  \<open>delete_row\<close>, \<open>rename_table\<close> and \<open>delete_all_rows\<close> return
  \<open>HA_ERR_WRONG_COMMAND\<close> and leave the state as it is: no system call and no other
  change. \<open>create\<close> returns 0; it issues no system call either, and it sets the session
  variable \<open>last_create_thdvar\<close> and adds 1 to \<open>create_count_thdvar\<close>.
\<close>

theorem unsupported_hooks:
  "rnd_pos E s buf pos = (E, s) \<and>
   index_read_map E s buf key keypart_map find_flag = (E, s) \<and>
   index_next E s buf = (E, s) \<and>
   index_prev E s buf = (E, s) \<and>
   index_first E s buf = (E, s) \<and>
   index_last E s buf = (E, s) \<and>
   update_row E s old_data new_data = (E, s) \<and>
   delete_row E s buf = (E, s) \<and>
   rename_table E s from_name to_name from_def to_def = (E, s) \<and>
   delete_all_rows E s = (E, s) \<and>
   create n s name form create_info table_def
     = (0, s\<lparr>last_create_thdvar :=
                 Some (take (n - 1) (''Last creation '' @ [CHR 0x27] @ name @ [CHR 0x27])),
               create_count_thdvar := create_count_thdvar s + 1\<rparr>)"
  by (simp add: rnd_pos_def index_read_map_def index_next_def index_prev_def index_first_def
      index_last_def update_row_def delete_row_def rename_table_def delete_all_rows_def
      create_def snprintf_def Let_def)

text \<open>
  C7 as it is stated fails for \<open>create\<close>: with 131 for the host's code of an unsupported
  operation and a buffer size of 1024, creating the table \<open>t1\<close> returns 0 and changes the
  state.
\<close>

theorem create_counterexample:
  "fst (create 1024 table8 ''t1'' () () ()) = 0 \<and>
   fst (create 1024 table8 ''t1'' () () ()) \<noteq> 131 \<and>
   snd (create 1024 table8 ''t1'' () () ()) \<noteq> table8"
  by (simp add: create_def table8_def snprintf_def Let_def)

subsection \<open>C8: the results of a scan step\<close>

text \<open>
  C8. For every reply received during a scan step (and every failure of \<open>recv\<close>),
  \<open>rnd_next\<close> returns \<open>-1\<close> or \<open>HA_ERR_END_OF_FILE\<close>; as the host's end-of-file code is
  not 0, there is no reply for which it returns 0, the code for "row available".
\<close>

theorem rnd_next_never_row_available:
  "(fst (rnd_next E s buf r) = -1 \<or> fst (rnd_next E s buf r) = E) \<and>
   (E \<noteq> 0 \<longrightarrow> fst (rnd_next E s buf r) \<noteq> 0)"
  by (simp add: rnd_next_ret)

text \<open>The theorem with the end-of-file code 137 and a reply of 8 row bytes.\<close>

theorem rnd_next_never_row_available_witness:
  "(137 :: int) \<noteq> 0 \<and>
   fst (rnd_next 137 scan8 zeros (Some [1, 2, 3, 4, 5, 6, 7, 8])) \<noteq> 0"
  using rnd_next_never_row_available [of 137 scan8 zeros "Some [1, 2, 3, 4, 5, 6, 7, 8]"]
  by simp

subsection \<open>C9 and C10: constants\<close>

text \<open>
  C9. For every index, start key and end key, \<open>records_in_range\<close> returns the constant 10,
  whatever its arguments and the state of the handler are.
\<close>

theorem records_in_range_const:
  "records_in_range s inx min_key max_key = 10"
  by (simp add: records_in_range_def)

text \<open>
  C10. For every database name, table name and SQL-layer flag,
  \<open>keti_is_supported_system_table\<close> returns false: the list of system tables holds its
  terminating entry only.
\<close>

theorem keti_is_supported_system_table_false:
  "keti_is_supported_system_table db table_name is_sql_layer_system_table = Some False"
  by (simp add: keti_is_supported_system_table_def ha_keti_system_tables_def)

end
